theory Spec2Isabelle
  imports Complex_Main "HOL-Library.Sublist"
begin

section \<open>Data model (api/models.py)\<close>

text \<open>
  Every Django model class is a record and every table a list of rows in insertion order.
  Primary keys and foreign keys are natural numbers, a nullable column is an \<open>option\<close>,
  a \<open>DecimalField\<close> is an exact rational (Python's \<open>Decimal\<close> adds exactly), a
  \<open>DateTimeField\<close> is a point of time counted in seconds. Columns that none of the
  modelled operations reads or writes (addresses, phone numbers, languages, balances, the
  pickup coordinates, which only enter the distance computation) are left out.
\<close>

type_synonym time = nat
type_synonym decimal = rat

record User =
  user_id :: nat
  telegram_id :: string

record Passenger =
  passenger_id :: nat
  p_user :: nat
  p_total_rides :: nat

record Driver =
  driver_id :: nat
  d_user :: nat
  is_verified :: bool
  is_online :: bool
  current_lat :: "decimal option"
  current_lng :: "decimal option"
  d_total_rides :: nat
  average_rating :: decimal

record Ride =
  ride_id :: nat
  passenger :: nat
  driver :: "nat option"
  estimated_cost :: decimal
  fare_boosts :: nat
  current_cost :: "decimal option"
  status :: string
  accepted_at :: "time option"
  started_at :: "time option"
  completed_at :: "time option"
  cancelled_at :: "time option"
  cancellation_reason :: string

record RideStatus =
  h_ride :: nat
  h_status :: string
  h_notes :: string
  h_created_at :: time

record Rating =
  rt_ride :: nat
  rated_by :: nat
  rated_user :: nat
  stars :: nat
  comment :: string

text \<open>
  The database: one list per table. \<open>app_settings\<close> is the \<open>AppSettings\<close> table as
  (key, value) rows.
\<close>

record db =
  users :: "User list"
  passengers :: "Passenger list"
  drivers :: "Driver list"
  rides :: "Ride list"
  status_history :: "RideStatus list"
  ratings :: "Rating list"
  app_settings :: "(string \<times> decimal) list"

section \<open>Ride.update_status (api/models.py, lines 207-229)\<close>

text \<open>
  \<open>update_status_fields\<close> is the mutation of \<open>self\<close> before \<open>self.save()\<close>: the status
  is assigned unconditionally, then the \<open>if\<close>/\<open>elif\<close> chain sets one timestamp. A
  \<open>datetime\<close> is always truthy, so \<open>not self.accepted_at\<close> holds exactly when the
  column is \<open>None\<close>. \<open>'cancelled' in new_status\<close> is Python's substring test.
\<close>

definition update_status_fields :: "Ride \<Rightarrow> string \<Rightarrow> string \<Rightarrow> time \<Rightarrow> Ride" where
  "update_status_fields self new_status notes now =
     (let s = self\<lparr>status := new_status\<rparr> in
      if new_status = ''assigned'' \<and> accepted_at s = None then s\<lparr>accepted_at := Some now\<rparr>
      else if new_status = ''in_progress'' \<and> started_at s = None then s\<lparr>started_at := Some now\<rparr>
      else if new_status = ''completed'' \<and> completed_at s = None then s\<lparr>completed_at := Some now\<rparr>
      else if sublist ''cancelled'' new_status \<and> cancelled_at s = None
        then s\<lparr>cancelled_at := Some now, cancellation_reason := notes\<rparr>
      else s)"

text \<open>
  \<open>self.save()\<close> on an object that has a primary key: an UPDATE of the row with that key,
  and an INSERT when no row has it.
\<close>

definition save_ride :: "db \<Rightarrow> Ride \<Rightarrow> db" where
  "save_ride d r =
     (if list_ex (\<lambda>x. ride_id x = ride_id r) (rides d)
      then d\<lparr>rides := map (\<lambda>x. if ride_id x = ride_id r then r else x) (rides d)\<rparr>
      else d\<lparr>rides := rides d @ [r]\<rparr>)"

text \<open>
  \<open>RideStatus.objects.create(ride=self, status=new_status, notes=notes)\<close>; the row's
  \<open>created_at\<close> is filled by \<open>auto_now_add\<close>, taken here as the same instant \<open>now\<close>.
  The \<open>post_save\<close> receivers of \<open>Ride\<close> only schedule notification tasks; they write
  nothing to the tables and are not part of \<open>save_ride\<close>.
\<close>

definition history_entry :: "Ride \<Rightarrow> string \<Rightarrow> string \<Rightarrow> time \<Rightarrow> RideStatus" where
  "history_entry self new_status notes now =
     \<lparr>h_ride = ride_id self, h_status = new_status, h_notes = notes, h_created_at = now\<rparr>"

definition update_status :: "db \<Rightarrow> Ride \<Rightarrow> string \<Rightarrow> string \<Rightarrow> time \<Rightarrow> db \<times> Ride" where
  "update_status d self new_status notes now =
     (let self' = update_status_fields self new_status notes now;
          d1 = save_ride d self'
      in (d1\<lparr>status_history := status_history d1 @ [history_entry self' new_status notes now]\<rparr>,
          self'))"

text \<open>A sequence of transition calls on one ride object, each with its own clock reading.\<close>

fun update_status_seq :: "db \<Rightarrow> Ride \<Rightarrow> (string \<times> string \<times> time) list \<Rightarrow> db \<times> Ride" where
  "update_status_seq d self [] = (d, self)"
| "update_status_seq d self ((new_status, notes, now) # calls) =
     (case update_status d self new_status notes now of
        (d', self') \<Rightarrow> update_status_seq d' self' calls)"


section \<open>Exceptions and failure reasons\<close>

text \<open>
  The exceptions the modelled code can raise (\<open>InvalidOperation\<close> is the one of the
  \<open>decimal\<close> module, \<open>OperationalError\<close> the one of the task queue's transport), and
  the second component of the \<open>(False, reason)\<close> pairs the services return:
  \<^item> \<open>ActiveRide\<close>: the Russian sentence "you have an active ride, finish it before
    accepting a new one" of \<open>accept_ride\<close>;
  \<^item> \<open>RideNotAvailable\<close>: "Ride not available";
  \<^item> \<open>ErrorAcceptingRide\<close>: "Error accepting ride";
  \<^item> \<open>PermissionDenied\<close>: "Permission denied";
  \<^item> \<open>NoReason\<close>: \<open>None\<close>;
  \<^item> \<open>AlreadyRated\<close>: "Already rated";
  \<^item> \<open>MaximumBoosts n\<close>: "Maximum n fare boosts already applied";
  \<^item> \<open>PendingOnly\<close>: "Can only boost fare for pending rides";
  \<^item> \<open>RideNotFoundOrCannotBeBoosted\<close>: "Ride not found or cannot be boosted";
  \<^item> \<open>ErrorBoostingFare\<close>: "Error boosting fare";
  \<^item> \<open>RideAlreadyAssigned\<close>: "Ride already assigned or in progress".
  A service result is \<open>reason + 'a\<close>: \<open>Inl\<close> is \<open>(False, reason)\<close>, \<open>Inr\<close> is
  \<open>(True, value)\<close>.
\<close>

datatype exn =
    User_DoesNotExist | Passenger_DoesNotExist | Driver_DoesNotExist | Ride_DoesNotExist
  | AttributeError | TypeError | InvalidOperation | ImportError | OperationalError

datatype reason =
    ActiveRide | RideNotAvailable | ErrorAcceptingRide | PermissionDenied | NoReason
  | AlreadyRated | MaximumBoosts int | PendingOnly | RideNotFoundOrCannotBeBoosted
  | ErrorBoostingFare | RideAlreadyAssigned

section \<open>Queries and foreign keys\<close>

text \<open>
  \<open>Model.objects.get(...)\<close> returns the row that matches and raises \<open>DoesNotExist\<close>
  when there is none; the looked-up columns are unique (\<open>telegram_id\<close>, the primary
  keys, the one-to-one \<open>user\<close> columns), so the first match is the match. Following a
  foreign key is a lookup by primary key.
\<close>

definition get_user :: "db \<Rightarrow> string \<Rightarrow> exn + User" where
  "get_user d tg =
     (case find (\<lambda>u. telegram_id u = tg) (users d) of
        None \<Rightarrow> Inl User_DoesNotExist | Some u \<Rightarrow> Inr u)"

definition passenger_profile :: "db \<Rightarrow> User \<Rightarrow> Passenger option" where
  "passenger_profile d u = find (\<lambda>p. p_user p = user_id u) (passengers d)"

definition driver_profile :: "db \<Rightarrow> User \<Rightarrow> Driver option" where
  "driver_profile d u = find (\<lambda>x. d_user x = user_id u) (drivers d)"

definition get_ride :: "db \<Rightarrow> (Ride \<Rightarrow> bool) \<Rightarrow> exn + Ride" where
  "get_ride d P =
     (case find P (rides d) of None \<Rightarrow> Inl Ride_DoesNotExist | Some r \<Rightarrow> Inr r)"

definition ride_passenger :: "db \<Rightarrow> Ride \<Rightarrow> exn + Passenger" where
  "ride_passenger d r =
     (case find (\<lambda>p. passenger_id p = passenger r) (passengers d) of
        None \<Rightarrow> Inl Passenger_DoesNotExist | Some p \<Rightarrow> Inr p)"

definition ride_driver :: "db \<Rightarrow> Ride \<Rightarrow> exn + Driver option" where
  "ride_driver d r =
     (case driver r of
        None \<Rightarrow> Inr None
      | Some k \<Rightarrow>
          (case find (\<lambda>x. driver_id x = k) (drivers d) of
             None \<Rightarrow> Inl Driver_DoesNotExist | Some x \<Rightarrow> Inr (Some x)))"


text \<open>
  \<open>hasattr(user, 'passenger_profile') and ride.passenger.user == user\<close>; model instances
  are equal when their primary keys are.
\<close>

definition is_ride_passenger :: "db \<Rightarrow> User \<Rightarrow> Ride \<Rightarrow> exn + bool" where
  "is_ride_passenger d u r =
     (case passenger_profile d u of
        None \<Rightarrow> Inr False
      | Some _ \<Rightarrow>
          (case ride_passenger d r of Inl e \<Rightarrow> Inl e | Inr p \<Rightarrow> Inr (p_user p = user_id u)))"

text \<open>\<open>hasattr(user, 'driver_profile') and ride.driver and ride.driver.user == user\<close>.\<close>

definition is_ride_driver :: "db \<Rightarrow> User \<Rightarrow> Ride \<Rightarrow> exn + bool" where
  "is_ride_driver d u r =
     (case driver_profile d u of
        None \<Rightarrow> Inr False
      | Some _ \<Rightarrow>
          (case ride_driver d r of
             Inl e \<Rightarrow> Inl e
           | Inr None \<Rightarrow> Inr False
           | Inr (Some x) \<Rightarrow> Inr (d_user x = user_id u)))"

definition save_driver :: "db \<Rightarrow> Driver \<Rightarrow> db" where
  "save_driver d x =
     (if list_ex (\<lambda>y. driver_id y = driver_id x) (drivers d)
      then d\<lparr>drivers := map (\<lambda>y. if driver_id y = driver_id x then x else y) (drivers d)\<rparr>
      else d\<lparr>drivers := drivers d @ [x]\<rparr>)"

definition save_passenger :: "db \<Rightarrow> Passenger \<Rightarrow> db" where
  "save_passenger d p =
     (if list_ex (\<lambda>q. passenger_id q = passenger_id p) (passengers d)
      then d\<lparr>passengers :=
               map (\<lambda>q. if passenger_id q = passenger_id p then p else q) (passengers d)\<rparr>
      else d\<lparr>passengers := passengers d @ [p]\<rparr>)"

section \<open>DriverService.accept_ride (api/services.py, lines 423-448)\<close>

definition active_statuses :: "string list" where
  "active_statuses = [''assigned'', ''driver_enroute'', ''driver_arrived'', ''in_progress'']"

text \<open>
  The body of \<open>accept_ride\<close> is a sequence of separate database statements with no
  transaction and no row lock around them. \<open>accept_ride_read\<close> is the statements up to and
  including \<open>Ride.objects.get(id=ride_id, status='requested')\<close>: it changes nothing and
  yields the driver and the ride object as read. \<open>accept_ride_write\<close> is the rest:
  \<open>ride.driver = driver\<close> and \<open>ride.update_status('assigned', 'Driver assigned')\<close>,
  which saves the object read before. \<open>accept_ride_finish\<close> is what follows the reads:
  the \<open>return\<close> of the refusal, the two \<open>except\<close> clauses, or the writes and
  \<open>return True, ride\<close>. \<open>accept_ride\<close> runs the reads and then what follows them.
\<close>

definition accept_ride_read :: "db \<Rightarrow> string \<Rightarrow> nat \<Rightarrow> exn + (reason + Driver \<times> Ride)" where
  "accept_ride_read d tg rid =
     (case get_user d tg of
        Inl e \<Rightarrow> Inl e
      | Inr user \<Rightarrow>
          (case driver_profile d user of
             None \<Rightarrow> Inl Driver_DoesNotExist
           | Some drv \<Rightarrow>
               if list_ex (\<lambda>r. driver r = Some (driver_id drv) \<and> status r \<in> set active_statuses)
                    (rides d)
               then Inr (Inl ActiveRide)
               else (case get_ride d (\<lambda>r. ride_id r = rid \<and> status r = ''requested'') of
                       Inl e \<Rightarrow> Inl e
                     | Inr ride \<Rightarrow> Inr (Inr (drv, ride)))))"

definition accept_ride_write :: "db \<Rightarrow> Driver \<times> Ride \<Rightarrow> time \<Rightarrow> db \<times> Ride" where
  "accept_ride_write d dr now =
     update_status d ((snd dr)\<lparr>driver := Some (driver_id (fst dr))\<rparr>)
       ''assigned'' ''Driver assigned'' now"

definition accept_ride_finish ::
  "db \<Rightarrow> exn + (reason + Driver \<times> Ride) \<Rightarrow> time \<Rightarrow> db \<times> (reason + Ride)" where
  "accept_ride_finish d seen now =
     (case seen of
        Inl Ride_DoesNotExist \<Rightarrow> (d, Inl RideNotAvailable)
      | Inl _ \<Rightarrow> (d, Inl ErrorAcceptingRide)
      | Inr (Inl why) \<Rightarrow> (d, Inl why)
      | Inr (Inr dr) \<Rightarrow> (case accept_ride_write d dr now of (d', ride) \<Rightarrow> (d', Inr ride)))"

definition accept_ride :: "db \<Rightarrow> string \<Rightarrow> nat \<Rightarrow> time \<Rightarrow> db \<times> (reason + Ride)" where
  "accept_ride d tg rid now = accept_ride_finish d (accept_ride_read d tg rid) now"


text \<open>
  Accept attempts that overlap: every attempt has done its reads, on the same database,
  before the first one writes; then each attempt goes on, in the order of the list.
\<close>

fun accept_ride_finish_all ::
  "db \<Rightarrow> ((exn + (reason + Driver \<times> Ride)) \<times> time) list \<Rightarrow> db \<times> (reason + Ride) list" where
  "accept_ride_finish_all d [] = (d, [])"
| "accept_ride_finish_all d (c # pending) =
     (case accept_ride_finish d (fst c) (snd c) of
        (d', res) \<Rightarrow>
          (case accept_ride_finish_all d' pending of (d'', ress) \<Rightarrow> (d'', res # ress)))"

definition accept_ride_all_read_first ::
  "db \<Rightarrow> nat \<Rightarrow> (string \<times> time) list \<Rightarrow> db \<times> (reason + Ride) list" where
  "accept_ride_all_read_first d rid calls =
     accept_ride_finish_all d (map (\<lambda>c. (accept_ride_read d (fst c) rid, snd c)) calls)"

section \<open>RideService.update_ride_status and cancel_ride (api/services.py, lines 479-529)\<close>

text \<open>\<open>if telegram_id:\<close> is false for \<open>None\<close> and for the empty string.\<close>

definition check_permission :: "db \<Rightarrow> Ride \<Rightarrow> string option \<Rightarrow> exn + bool" where
  "check_permission d ride telegram =
     (case telegram of
        None \<Rightarrow> Inr True
      | Some tg \<Rightarrow>
          if tg = [] then Inr True
          else (case get_user d tg of
                  Inl e \<Rightarrow> Inl e
                | Inr user \<Rightarrow>
                    (case is_ride_passenger d user ride of
                       Inl e \<Rightarrow> Inl e
                     | Inr True \<Rightarrow> Inr True
                     | Inr False \<Rightarrow> is_ride_driver d user ride)))"

definition update_counters :: "db \<Rightarrow> Ride \<Rightarrow> db \<times> (exn + unit)" where
  "update_counters d ride =
     (case ride_driver d ride of
        Inl e \<Rightarrow> (d, Inl e)
      | Inr drv \<Rightarrow>
          (let d1 = (case drv of
                       None \<Rightarrow> d
                     | Some x \<Rightarrow> save_driver d (x\<lparr>d_total_rides := d_total_rides x + 1\<rparr>))
           in case ride_passenger d1 ride of
                Inl e \<Rightarrow> (d1, Inl e)
              | Inr p \<Rightarrow> (save_passenger d1 (p\<lparr>p_total_rides := p_total_rides p + 1\<rparr>), Inr ())))"

definition update_ride_status ::
  "db \<Rightarrow> nat \<Rightarrow> string \<Rightarrow> string \<Rightarrow> string option \<Rightarrow> time \<Rightarrow> db \<times> (reason + Ride)" where
  "update_ride_status d rid new_status notes telegram now =
     (case get_ride d (\<lambda>r. ride_id r = rid) of
        Inl e \<Rightarrow> (d, Inl NoReason)
      | Inr ride \<Rightarrow>
          (case check_permission d ride telegram of
             Inl e \<Rightarrow> (d, Inl NoReason)
           | Inr False \<Rightarrow> (d, Inl PermissionDenied)
           | Inr True \<Rightarrow>
               (case update_status d ride new_status notes now of
                  (d1, ride1) \<Rightarrow>
                    if new_status = ''completed''
                    then (case update_counters d1 ride1 of
                            (d2, Inl e) \<Rightarrow> (d2, Inl NoReason)
                          | (d2, Inr _) \<Rightarrow> (d2, Inr ride1))
                    else (d1, Inr ride1))))"

definition cancel_ride :: "db \<Rightarrow> nat \<Rightarrow> string \<Rightarrow> string \<Rightarrow> time \<Rightarrow> db \<times> (reason + Ride)" where
  "cancel_ride d rid tg why now =
     (case get_user d tg of
        Inl e \<Rightarrow> (d, Inl NoReason)
      | Inr user \<Rightarrow>
          (case get_ride d (\<lambda>r. ride_id r = rid) of
             Inl e \<Rightarrow> (d, Inl NoReason)
           | Inr ride \<Rightarrow>
               (case is_ride_passenger d user ride of
                  Inl e \<Rightarrow> (d, Inl NoReason)
                | Inr True \<Rightarrow>
                    (case update_status d ride ''cancelled_by_passenger'' why now of
                       (d1, ride1) \<Rightarrow> (d1, Inr ride1))
                | Inr False \<Rightarrow>
                    (case is_ride_driver d user ride of
                       Inl e \<Rightarrow> (d, Inl NoReason)
                     | Inr True \<Rightarrow>
                         (case update_status d ride ''cancelled_by_driver'' why now of
                            (d1, ride1) \<Rightarrow> (d1, Inr ride1))
                     | Inr False \<Rightarrow> (d, Inl PermissionDenied)))))"

section \<open>Decimal columns\<close>

text \<open>
  A \<open>DecimalField(max_digits, decimal_places)\<close> column. When a row is written, Django's
  \<open>format_number\<close> quantizes the value to \<open>decimal_places\<close> places under a context of
  precision \<open>max_digits\<close> and Python's default rounding, half to even; a result of more
  than \<open>max_digits\<close> digits raises \<open>decimal.InvalidOperation\<close> (\<open>None\<close> here) and nothing is
  written (a backend that hands the value to the database unrounded differs from this
  only on a tie in the third place and in the exception it raises). The columns written
  below are \<open>Ride.current_cost\<close> (8 digits, 2 places) and
  \<open>Driver.average_rating\<close> (3 digits, 2 places). A value read from its column and
  written back unchanged passes through \<open>format_number\<close> as it is, so \<open>save_ride\<close> and
  \<open>save_driver\<close> store the row they are given and the callers that assign a computed
  value to a decimal column apply \<open>format_number\<close> to it first.
\<close>

definition round_half_even :: "rat \<Rightarrow> int" where
  "round_half_even x =
     (let n = \<lfloor>x\<rfloor>; r = x - of_int n
      in if r < 1 / 2 then n else if 1 / 2 < r then n + 1 else if even n then n else n + 1)"

definition quantize :: "nat \<Rightarrow> decimal \<Rightarrow> decimal" where
  "quantize places x = of_int (round_half_even (x * 10 ^ places)) / 10 ^ places"

definition format_number :: "decimal \<Rightarrow> nat \<Rightarrow> nat \<Rightarrow> decimal option" where
  "format_number v max_digits decimal_places =
     (let q = quantize decimal_places v
      in if \<bar>q\<bar> * 10 ^ decimal_places < 10 ^ max_digits then Some q else None)"

section \<open>The task queue\<close>

text \<open>
  \<open>notify_drivers_about_boosted_ride.delay(ride.id)\<close> puts a task on the queue of the
  Celery broker, from which a worker takes it later. The import of \<open>api.tasks\<close> raises
  \<open>ImportError\<close> where Celery is not installed, and \<open>delay\<close> raises where the broker
  cannot be reached.
\<close>

datatype task = NotifyBoosted nat

record celery =
  installed :: bool
  broker_up :: bool
  queue :: "task list"

definition delay :: "celery \<Rightarrow> task \<Rightarrow> exn + celery" where
  "delay c t =
     (if \<not> installed c then Inl ImportError
      else if \<not> broker_up c then Inl OperationalError
      else Inr (c\<lparr>queue := queue c @ [t]\<rparr>))"

section \<open>Fare boost (api/models.py, lines 231-258 and 346-372; api/services.py, lines 185-217 and 531-562)\<close>

text \<open>
  \<open>a or b\<close> on an optional \<open>Decimal\<close>: \<open>None\<close> and a zero \<open>Decimal\<close> are both falsy.
  \<open>int(x)\<close> on a \<open>Decimal\<close> truncates towards zero.
\<close>

definition decimal_or :: "decimal option \<Rightarrow> decimal \<Rightarrow> decimal" where
  "decimal_or a b = (case a of None \<Rightarrow> b | Some x \<Rightarrow> if x = 0 then b else x)"

definition py_int :: "decimal \<Rightarrow> int" where
  "py_int x = (if 0 \<le> x then \<lfloor>x\<rfloor> else \<lceil>x\<rceil>)"

definition display_cost :: "Ride \<Rightarrow> decimal" where
  "display_cost self = decimal_or (current_cost self) (estimated_cost self)"

text \<open>
  The \<open>AppSettings\<close> getters read the row of their key. When the row is missing they
  create it from a Python literal and return \<open>setting.value\<close> of the object just built,
  which still holds that literal: the \<open>int\<close> 3 for \<open>max_fare_boosts\<close> and the \<open>float\<close>
  100.00 for \<open>fare_boost_amount\<close> (a row read from the table holds a \<open>Decimal\<close>).
\<close>

datatype number = PyDecimal decimal | PyFloat decimal

definition get_max_fare_boosts :: "db \<Rightarrow> db \<times> int" where
  "get_max_fare_boosts d =
     (case map_of (app_settings d) ''max_fare_boosts'' of
        Some v \<Rightarrow> (d, py_int v)
      | None \<Rightarrow> (d\<lparr>app_settings := app_settings d @ [(''max_fare_boosts'', 3)]\<rparr>, 3))"

definition get_fare_boost_amount :: "db \<Rightarrow> db \<times> number" where
  "get_fare_boost_amount d =
     (case map_of (app_settings d) ''fare_boost_amount'' of
        Some v \<Rightarrow> (d, PyDecimal v)
      | None \<Rightarrow> (d\<lparr>app_settings := app_settings d @ [(''fare_boost_amount'', 100)]\<rparr>,
                 PyFloat 100))"

text \<open>
  \<open>Ride.boost_fare\<close> returns the database, the object \<open>self\<close> after the call and the
  outcome: an exception (\<open>Decimal + float\<close> raises \<open>TypeError\<close>), \<open>(False, reason)\<close>, or
  \<open>(True, message)\<close> with the amount and the new cost the message prints. The object
  keeps the sum it was assigned; \<open>self.save()\<close> writes the sum through the
  \<open>current_cost\<close> column, and where the sum does not fit the column it raises after the
  object has been changed and before the row is.
\<close>

definition boost_fare :: "db \<Rightarrow> Ride \<Rightarrow> db \<times> Ride \<times> (exn + reason + decimal \<times> decimal)" where
  "boost_fare d self =
     (case get_max_fare_boosts d of
        (d1, max_boosts) \<Rightarrow>
          (case get_fare_boost_amount d1 of
             (d2, boost_amount) \<Rightarrow>
               if int (fare_boosts self) \<ge> max_boosts
               then (d2, self, Inr (Inl (MaximumBoosts max_boosts)))
               else if status self \<noteq> ''requested''
               then (d2, self, Inr (Inl PendingOnly))
               else (case boost_amount of
                       PyFloat _ \<Rightarrow> (d2, self, Inl TypeError)
                     | PyDecimal amount \<Rightarrow>
                         (let new_cost = decimal_or (current_cost self) (estimated_cost self)
                                           + amount;
                              self' = self\<lparr>fare_boosts := fare_boosts self + 1,
                                           current_cost := Some new_cost\<rparr>
                          in (case format_number new_cost 8 2 of
                                None \<Rightarrow> (d2, self', Inl InvalidOperation)
                              | Some stored \<Rightarrow>
                                  (save_ride d2 (self'\<lparr>current_cost := Some stored\<rparr>), self',
                                   Inr (Inr (amount, new_cost))))))))"


text \<open>
  \<open>PassengerService.boost_ride_fare\<close>: \<open>(False, reason, None)\<close> is \<open>Inl reason\<close>,
  \<open>(True, message, ride.display_cost)\<close> is \<open>Inr\<close> of the display cost of the object. After
  a successful boost it schedules \<open>notify_drivers_about_boosted_ride\<close>; an \<open>ImportError\<close>
  there is caught and logged, any other exception reaches the outer handler, which
  returns "Error boosting fare" with the boost already stored.
\<close>

definition boost_ride_fare ::
  "db \<Rightarrow> celery \<Rightarrow> string \<Rightarrow> nat \<Rightarrow> db \<times> celery \<times> (reason + decimal)" where
  "boost_ride_fare d c tg rid =
     (case get_user d tg of
        Inl e \<Rightarrow> (d, c, Inl ErrorBoostingFare)
      | Inr user \<Rightarrow>
          (case passenger_profile d user of
             None \<Rightarrow> (d, c, Inl ErrorBoostingFare)
           | Some p \<Rightarrow>
               (case get_ride d (\<lambda>r. ride_id r = rid \<and> passenger r = passenger_id p
                                      \<and> status r = ''requested'') of
                  Inl e \<Rightarrow> (d, c, Inl RideNotFoundOrCannotBeBoosted)
                | Inr ride \<Rightarrow>
                    (case boost_fare d ride of
                       (d', ride', Inl e) \<Rightarrow> (d', c, Inl ErrorBoostingFare)
                     | (d', ride', Inr (Inl why)) \<Rightarrow> (d', c, Inl why)
                     | (d', ride', Inr (Inr _)) \<Rightarrow>
                         (case delay c (NotifyBoosted (ride_id ride')) of
                            Inr c' \<Rightarrow> (d', c', Inr (display_cost ride'))
                          | Inl ImportError \<Rightarrow> (d', c, Inr (display_cost ride'))
                          | Inl _ \<Rightarrow> (d', c, Inl ErrorBoostingFare))))))"

text \<open>
  \<open>RideService.increase_ride_cost\<close>, the operation the passenger bot calls:
  \<open>not hasattr(user, 'passenger_profile') or ride.passenger.user != user\<close> is the negation
  of \<open>is_ride_passenger\<close>. Here the import and \<open>delay\<close> stand under the one handler of
  the whole body, so every exception of theirs gives \<open>(False, None)\<close>.
\<close>

definition increase_ride_cost ::
  "db \<Rightarrow> celery \<Rightarrow> nat \<Rightarrow> string \<Rightarrow> db \<times> celery \<times> (reason + Ride)" where
  "increase_ride_cost d c rid tg =
     (case get_user d tg of
        Inl e \<Rightarrow> (d, c, Inl NoReason)
      | Inr user \<Rightarrow>
          (case get_ride d (\<lambda>r. ride_id r = rid) of
             Inl e \<Rightarrow> (d, c, Inl NoReason)
           | Inr ride \<Rightarrow>
               (case is_ride_passenger d user ride of
                  Inl e \<Rightarrow> (d, c, Inl NoReason)
                | Inr False \<Rightarrow> (d, c, Inl PermissionDenied)
                | Inr True \<Rightarrow>
                    if status ride \<noteq> ''requested'' then (d, c, Inl RideAlreadyAssigned)
                    else (case boost_fare d ride of
                            (d', ride', Inl e) \<Rightarrow> (d', c, Inl NoReason)
                          | (d', ride', Inr (Inl why)) \<Rightarrow> (d', c, Inl why)
                          | (d', ride', Inr (Inr _)) \<Rightarrow>
                              (case delay c (NotifyBoosted (ride_id ride')) of
                                 Inl e \<Rightarrow> (d', c, Inl NoReason)
                               | Inr c' \<Rightarrow> (d', c', Inr ride'))))))"

section \<open>RideService.rate_ride (api/services.py, lines 564-603)\<close>





section \<open>Offers and escalation (api/services.py, lines 238-280; api/tasks.py)\<close>





text \<open>
  \<open>PassengerService.get_nearby_rides_for_new_ride\<close>: every online verified driver, with
  distance 0 when a coordinate is missing or zero (both falsy) and the rounded geodesic
  distance otherwise, sorted by distance with Python's stable sort. The geodesic distance
  is floating-point code of a library and is a parameter \<open>geo\<close> of the model.
\<close>

definition has_location :: "Driver \<Rightarrow> bool" where
  "has_location x =
     ((case current_lat x of None \<Rightarrow> False | Some a \<Rightarrow> a \<noteq> 0) \<and>
      (case current_lng x of None \<Rightarrow> False | Some b \<Rightarrow> b \<noteq> 0))"

definition get_nearby_rides_for_new_ride ::
  "db \<Rightarrow> (Driver \<Rightarrow> Ride \<Rightarrow> decimal) \<Rightarrow> Ride \<Rightarrow> (Driver \<times> decimal) list" where
  "get_nearby_rides_for_new_ride d geo ride =
     sort_key snd
       (map (\<lambda>x. (x, if has_location x then geo x ride else 0))
          (filter (\<lambda>x. is_online x \<and> is_verified x) (drivers d)))"















section \<open>Vocabulary of the properties\<close>


text \<open>
  The driver profile behind a Telegram id, whether a driver holds a ride in an active
  status (the test of \<open>accept_ride\<close>), and the rides a driver holds in an active status.
\<close>

definition driver_of :: "db \<Rightarrow> string \<Rightarrow> Driver option" where
  "driver_of d tg = (case get_user d tg of Inl e \<Rightarrow> None | Inr u \<Rightarrow> driver_profile d u)"

definition has_active_ride :: "db \<Rightarrow> nat \<Rightarrow> bool" where
  "has_active_ride d k =
     list_ex (\<lambda>r. driver r = Some k \<and> status r \<in> set active_statuses) (rides d)"

definition active_rides_of :: "db \<Rightarrow> nat \<Rightarrow> Ride list" where
  "active_rides_of d k =
     filter (\<lambda>r. driver r = Some k \<and> status r \<in> set active_statuses) (rides d)"

section \<open>A small database for the concrete instances\<close>

text \<open>
  One passenger (Telegram id 100) with a requested ride, two online verified drivers
  (201 and 202), and a second passenger (300) who has nothing to do with the ride.
\<close>

definition demo_users :: "User list" where
  "demo_users =
     [\<lparr>user_id = 1, telegram_id = ''100''\<rparr>, \<lparr>user_id = 2, telegram_id = ''201''\<rparr>,
      \<lparr>user_id = 3, telegram_id = ''202''\<rparr>, \<lparr>user_id = 4, telegram_id = ''300''\<rparr>]"

definition demo_passengers :: "Passenger list" where
  "demo_passengers =
     [\<lparr>passenger_id = 1, p_user = 1, p_total_rides = 0\<rparr>,
      \<lparr>passenger_id = 2, p_user = 4, p_total_rides = 0\<rparr>]"

definition driver_a :: Driver where
  "driver_a = \<lparr>driver_id = 1, d_user = 2, is_verified = True, is_online = True,
               current_lat = None, current_lng = None, d_total_rides = 0, average_rating = 0\<rparr>"

definition driver_b :: Driver where
  "driver_b = \<lparr>driver_id = 2, d_user = 3, is_verified = True, is_online = True,
               current_lat = None, current_lng = None, d_total_rides = 0, average_rating = 0\<rparr>"

definition ride_1 :: Ride where
  "ride_1 = \<lparr>ride_id = 1, passenger = 1, driver = None, estimated_cost = 400, fare_boosts = 0,
             current_cost = Some 400, status = ''requested'', accepted_at = None,
             started_at = None, completed_at = None, cancelled_at = None,
             cancellation_reason = []\<rparr>"

definition demo_db :: db where
  "demo_db = \<lparr>users = demo_users, passengers = demo_passengers, drivers = [driver_a, driver_b],
              rides = [ride_1], status_history = [], ratings = [],
              app_settings = [(''fare_boost_amount'', 100), (''max_fare_boosts'', 3)]\<rparr>"

definition ride_2 :: Ride where
  "ride_2 = ride_1\<lparr>ride_id := 2, driver := Some 1, status := ''in_progress'',
                   accepted_at := Some 3, started_at := Some 5\<rparr>"

definition busy_db :: db where
  "busy_db = demo_db\<lparr>rides := [ride_1, ride_2]\<rparr>"

definition bound_passenger :: "db \<Rightarrow> User \<Rightarrow> Ride \<Rightarrow> bool" where
  "bound_passenger d u r =
     list_ex (\<lambda>p. passenger_id p = passenger r \<and> p_user p = user_id u) (passengers d)"

definition bound_driver :: "db \<Rightarrow> User \<Rightarrow> Ride \<Rightarrow> bool" where
  "bound_driver d u r =
     list_ex (\<lambda>x. driver r = Some (driver_id x) \<and> d_user x = user_id u) (drivers d)"

definition references_resolve :: "db \<Rightarrow> Ride \<Rightarrow> bool" where
  "references_resolve d r =
     (list_ex (\<lambda>p. passenger_id p = passenger r) (passengers d) \<and>
      (case driver r of None \<Rightarrow> True | Some k \<Rightarrow> list_ex (\<lambda>x. driver_id x = k) (drivers d)))"

definition stamped :: "Ride \<Rightarrow> bool" where
  "stamped r =
     ((status r = ''completed'' \<longrightarrow> completed_at r \<noteq> None) \<and>
      (sublist ''cancelled'' (status r) \<longrightarrow> cancelled_at r \<noteq> None))"

definition ride_done :: Ride where
  "ride_done = ride_1\<lparr>driver := Some 1, status := ''completed'', accepted_at := Some 3,
                      started_at := Some 5, completed_at := Some 9\<rparr>"

definition done_db :: db where
  "done_db = demo_db\<lparr>rides := [ride_done]\<rparr>"



text \<open>
  The small database with a negative boost amount configured, and with its ride accepted.
\<close>

definition cheap_db :: db where
  "cheap_db = demo_db\<lparr>app_settings := [(''fare_boost_amount'', - 100), (''max_fare_boosts'', 3)]\<rparr>"

definition assigned_db :: db where
  "assigned_db = demo_db\<lparr>rides := [ride_1\<lparr>driver := Some 1, status := ''assigned'',
                                           accepted_at := Some 10\<rparr>]\<rparr>"





















text \<open>
  A task queue with its broker running, one whose broker is down, and a deployment
  without Celery.
\<close>

definition workers :: celery where
  "workers = \<lparr>installed = True, broker_up = True, queue = []\<rparr>"







text \<open>
  A second requested ride of the same passenger, beside the completed ride 1 of the
  first driver and beside the requested ride 1.
\<close>

definition ride_3 :: Ride where
  "ride_3 = ride_1\<lparr>ride_id := 3\<rparr>"

definition reopen_db :: db where
  "reopen_db = demo_db\<lparr>rides := [ride_done, ride_3]\<rparr>"

definition open_db :: db where
  "open_db = demo_db\<lparr>rides := [ride_1, ride_3]\<rparr>"

section \<open>Properties of the transition function\<close>

lemma status_history_save_ride [simp]: "status_history (save_ride d r) = status_history d"
  by (simp add: save_ride_def)

lemma ride_id_update_status_fields [simp]:
  "ride_id (update_status_fields self s n t) = ride_id self"
  by (simp add: update_status_fields_def Let_def)

lemma status_update_status_fields [simp]: "status (update_status_fields self s n t) = s"
  by (simp add: update_status_fields_def Let_def)



lemma completed_at_update_status_fields:
  "completed_at (update_status_fields self s n t) =
     (if s = ''completed'' \<and> completed_at self = None then Some t else completed_at self)"
  by (simp add: update_status_fields_def Let_def)

lemma not_cancelled_literals:
  "\<not> sublist ''cancelled'' ''assigned''" "\<not> sublist ''cancelled'' ''in_progress''"
  "\<not> sublist ''cancelled'' ''completed''"
  by code_simp+

lemma cancelled_at_update_status_fields:
  "cancelled_at (update_status_fields self s n t) =
     (if sublist ''cancelled'' s \<and> cancelled_at self = None then Some t else cancelled_at self)"
  "cancellation_reason (update_status_fields self s n t) =
     (if sublist ''cancelled'' s \<and> cancelled_at self = None then n else cancellation_reason self)"
  using not_cancelled_literals by (auto simp add: update_status_fields_def Let_def)





lemma update_status_fst:
  "fst (update_status d self s n t) =
     (save_ride d (update_status_fields self s n t))
       \<lparr>status_history := status_history d @ [history_entry self s n t]\<rparr>"
  by (simp add: update_status_def Let_def history_entry_def)

lemma update_status_snd: "snd (update_status d self s n t) = update_status_fields self s n t"
  by (simp add: update_status_def Let_def)

lemma update_status_seq_Cons:
  "update_status_seq d self (c # calls) =
     update_status_seq (fst (update_status d self (fst c) (fst (snd c)) (snd (snd c))))
       (update_status_fields self (fst c) (fst (snd c)) (snd (snd c))) calls"
  by (cases c) (simp add: update_status_def Let_def)

lemma seq_ride_id: "ride_id (snd (update_status_seq d self calls)) = ride_id self"
  by (induction calls arbitrary: d self) (simp_all add: update_status_seq_Cons)










lemma accept_ride_read_active:
  assumes "driver_of d tg = Some drv" "has_active_ride d (driver_id drv)"
  shows "accept_ride_read d tg rid = Inr (Inl ActiveRide)"
  using assms
  by (auto simp add: accept_ride_read_def driver_of_def has_active_ride_def
      split: sum.splits option.splits)

lemma accept_ride_read_free:
  assumes "driver_of d tg = Some drv" "\<not> has_active_ride d (driver_id drv)"
  shows "accept_ride_read d tg rid =
     (case find (\<lambda>r. ride_id r = rid \<and> status r = ''requested'') (rides d) of
        None \<Rightarrow> Inl Ride_DoesNotExist | Some ride \<Rightarrow> Inr (Inr (drv, ride)))"
  using assms
  by (auto simp add: accept_ride_read_def driver_of_def has_active_ride_def get_ride_def
      split: sum.splits option.splits)

lemma accept_ride_active:
  assumes "driver_of d tg = Some drv" "has_active_ride d (driver_id drv)"
  shows "accept_ride d tg rid now = (d, Inl ActiveRide)"
  by (simp add: accept_ride_def accept_ride_finish_def accept_ride_read_active [OF assms])


lemma accept_ride_wins:
  assumes "driver_of d tg = Some drv" "\<not> has_active_ride d (driver_id drv)"
    "find (\<lambda>r. ride_id r = rid \<and> status r = ''requested'') (rides d) = Some ride"
  shows "accept_ride d tg rid now =
     (fst (update_status d (ride\<lparr>driver := Some (driver_id drv)\<rparr>)
             ''assigned'' ''Driver assigned'' now),
      Inr (update_status_fields (ride\<lparr>driver := Some (driver_id drv)\<rparr>)
             ''assigned'' ''Driver assigned'' now))"
  by (simp add: accept_ride_def accept_ride_finish_def accept_ride_read_free [OF assms(1,2)]
      assms(3) accept_ride_write_def update_status_def Let_def)

lemma accept_ride_read_passed:
  assumes "accept_ride_read d tg rid = Inr (Inr (drv, ride))"
  shows "driver_of d tg = Some drv \<and> \<not> has_active_ride d (driver_id drv) \<and>
         find (\<lambda>r. ride_id r = rid \<and> status r = ''requested'') (rides d) = Some ride"
  using assms
  by (auto simp add: accept_ride_read_def driver_of_def has_active_ride_def get_ride_def
      split: sum.splits option.splits if_splits)

lemma accept_ride_failure_keeps_db:
  assumes "accept_ride d tg rid now = (d', Inl why)"
  shows "d' = d"
  using assms
  by (auto simp add: accept_ride_def accept_ride_finish_def
      split: sum.splits exn.splits prod.splits)

lemma find_Some_props: "find P xs = Some x \<Longrightarrow> P x \<and> x \<in> set xs"
  by (induction xs) (auto split: if_splits)

lemma list_ex_of_find: "find P xs = Some x \<Longrightarrow> list_ex P xs"
  by (induction xs) (auto split: if_splits)

text \<open>The database after a successful accept.\<close>

lemma rides_after_update_status:
  assumes "list_ex (\<lambda>x. ride_id x = ride_id r) (rides d)"
  shows "rides (fst (update_status d r s n t)) =
     map (\<lambda>x. if ride_id x = ride_id r then update_status_fields r s n t else x) (rides d)"
  using assms by (simp add: update_status_fst save_ride_def)

lemma users_after_update_status [simp]: "users (fst (update_status d r s n t)) = users d"
  by (simp add: update_status_fst save_ride_def)

lemma drivers_after_update_status [simp]: "drivers (fst (update_status d r s n t)) = drivers d"
  by (simp add: update_status_fst save_ride_def)

lemma passengers_after_update_status [simp]:
  "passengers (fst (update_status d r s n t)) = passengers d"
  by (simp add: update_status_fst save_ride_def)

lemma driver_of_after_update_status [simp]:
  "driver_of (fst (update_status d r s n t)) tg = driver_of d tg"
  by (simp add: driver_of_def get_user_def driver_profile_def split: sum.splits option.splits)


lemma status_not_requested:
  "status (update_status_fields r ''assigned'' n t) \<noteq> ''requested''"
  by simp


lemma driver_update_status_fields [simp]:
  "driver (update_status_fields r s n t) = driver r"
  by (simp add: update_status_fields_def Let_def)



lemmas demo_defs =
  demo_db_def demo_users_def demo_passengers_def driver_a_def driver_b_def ride_1_def

lemmas accept_defs =
  accept_ride_all_read_first_def accept_ride_read_def accept_ride_write_def
  accept_ride_finish_def get_user_def driver_profile_def get_ride_def active_statuses_def
  update_status_def update_status_fields_def save_ride_def history_entry_def Let_def



lemma length_filter_replace:
  "length (filter Q (map (\<lambda>x. if key x = k then r' else x) xs)) =
     length (filter (\<lambda>x. key x \<noteq> k \<and> Q x) xs)
       + (if Q r' then length (filter (\<lambda>x. key x = k) xs) else 0)"
  by (induction xs) auto

lemma distinct_key_once:
  "distinct (map key xs) \<Longrightarrow> length (filter (\<lambda>x. key x = k) xs) \<le> 1"
  by (induction xs) (auto simp add: image_iff filter_empty_conv)

lemma length_filter_conj_le: "length (filter (\<lambda>x. P x \<and> Q x) xs) \<le> length (filter Q xs)"
  by (induction xs) auto

lemma filter_empty_of_not_ex:
  "\<not> list_ex Q xs \<Longrightarrow> length (filter (\<lambda>x. P x \<and> Q x) xs) = 0"
  by (induction xs) auto

lemma accept_ride_keeps_single_active:
  assumes keys: "distinct (map ride_id (rides d))"
    and inv: "length (active_rides_of d k) \<le> 1"
  shows "length (active_rides_of (fst (accept_ride d tg rid now)) k) \<le> 1"
proof (cases "accept_ride_read d tg rid")
  case (Inl e)
  then have "fst (accept_ride d tg rid now) = d"
    by (simp add: accept_ride_def accept_ride_finish_def split: exn.splits)
  then show ?thesis using inv by simp
next
  case (Inr seen)
  show ?thesis
  proof (cases seen)
    case (Inl why)
    then have "fst (accept_ride d tg rid now) = d"
      using Inr by (simp add: accept_ride_def accept_ride_finish_def)
    then show ?thesis using inv by simp
  next
    case (Inr dr)
    obtain drv ride where dr: "dr = (drv, ride)" by (cases dr)
    have passed: "accept_ride_read d tg rid = Inr (Inr (drv, ride))"
      using \<open>accept_ride_read d tg rid = Inr seen\<close> Inr dr by simp
    note facts = accept_ride_read_passed [OF passed]
    let ?Q = "\<lambda>r. driver r = Some k \<and> status r \<in> set active_statuses"
    let ?r0 = "ride\<lparr>driver := Some (driver_id drv)\<rparr>"
    let ?r1 = "update_status_fields ?r0 ''assigned'' ''Driver assigned'' now"
    have rid: "ride_id ride = rid" and in_d: "ride \<in> set (rides d)"
      using find_Some_props [of "\<lambda>r. ride_id r = rid \<and> status r = ''requested''" "rides d" ride]
        facts by simp_all
    have ex: "list_ex (\<lambda>x. ride_id x = ride_id ?r0) (rides d)"
      using in_d by (auto simp add: list_ex_iff)
    have step: "fst (accept_ride d tg rid now) =
        fst (update_status d ?r0 ''assigned'' ''Driver assigned'' now)"
      using accept_ride_wins [of d tg drv rid ride now] facts by simp
    have rides1: "rides (fst (accept_ride d tg rid now)) =
        map (\<lambda>x. if ride_id x = rid then ?r1 else x) (rides d)"
      unfolding step using rides_after_update_status [OF ex] rid by simp
    have len: "length (active_rides_of (fst (accept_ride d tg rid now)) k) =
        length (filter (\<lambda>x. ride_id x \<noteq> rid \<and> ?Q x) (rides d))
          + (if ?Q ?r1 then length (filter (\<lambda>x. ride_id x = rid) (rides d)) else 0)"
      unfolding active_rides_of_def rides1 by (rule length_filter_replace)
    have old: "length (filter (\<lambda>x. ride_id x \<noteq> rid \<and> ?Q x) (rides d))
        \<le> length (active_rides_of d k)"
      unfolding active_rides_of_def by (rule length_filter_conj_le)
    show ?thesis
    proof (cases "k = driver_id drv")
      case True
      have "\<not> list_ex ?Q (rides d)"
        using facts True by (simp add: has_active_ride_def)
      then have none: "length (filter (\<lambda>x. ride_id x \<noteq> rid \<and> ?Q x) (rides d)) = 0"
        by (rule filter_empty_of_not_ex)
      have "length (active_rides_of (fst (accept_ride d tg rid now)) k)
          \<le> length (filter (\<lambda>x. ride_id x = rid) (rides d))"
        using len none by (simp split: if_splits)
      then show ?thesis
        using distinct_key_once [OF keys, of rid] by linarith
    next
      case False
      then have nq: "\<not> ?Q ?r1" by auto
      have "length (active_rides_of (fst (accept_ride d tg rid now)) k) =
          length (filter (\<lambda>x. ride_id x \<noteq> rid \<and> ?Q x) (rides d))"
        using len nq by (simp only: if_False add_0_right)
      then show ?thesis using old inv by linarith
    qed
  qed
qed

text \<open>
  Claim C2, amended. A driver who holds a ride in one of the statuses assigned,
  driver_enroute, driver_arrived, in_progress is refused by \<open>accept_ride\<close> with the
  active-ride reason and the database is returned as it was. A call of \<open>accept_ride\<close>
  that runs from its reads to its writes with no other write in between keeps the
  invariant that every driver holds at most one ride in an active status (the ride ids
  being the primary key of the table). This is a property of one call of \<open>accept_ride\<close>:
  other operations, and accept attempts that overlap, do not keep the invariant.
\<close>

theorem accept_ride_single_active_ride:
  "(driver_of d tg = Some drv \<and> has_active_ride d (driver_id drv) \<longrightarrow>
      accept_ride d tg rid now = (d, Inl ActiveRide)) \<and>
   (distinct (map ride_id (rides d)) \<and> (\<forall>k. length (active_rides_of d k) \<le> 1) \<longrightarrow>
      (\<forall>k. length (active_rides_of (fst (accept_ride d tg rid now)) k) \<le> 1))"
  using accept_ride_active [of d tg drv rid now]
    accept_ride_keeps_single_active [of d _ tg rid now]
  by blast

theorem accept_ride_single_active_ride_witness:
  "accept_ride busy_db ''201'' 1 20 = (busy_db, Inl ActiveRide) \<and>
   length (active_rides_of (fst (accept_ride busy_db ''202'' 1 20)) 2) \<le> 1"
proof -
  have a: "driver_of busy_db ''201'' = Some driver_a"
    by (simp add: driver_of_def get_user_def driver_profile_def busy_db_def demo_defs)
  have busy: "has_active_ride busy_db (driver_id driver_a)"
    by (simp add: has_active_ride_def active_statuses_def busy_db_def ride_2_def demo_defs)
  have keys: "distinct (map ride_id (rides busy_db))"
    by (simp add: busy_db_def ride_2_def demo_defs)
  have inv: "\<forall>k. length (active_rides_of busy_db k) \<le> 1"
    by (simp add: active_rides_of_def active_statuses_def busy_db_def ride_2_def demo_defs)
  show ?thesis
    using accept_ride_single_active_ride [of busy_db "''201''" driver_a 1 20]
      accept_ride_single_active_ride [of busy_db "''202''" driver_a 1 20]
      a busy keys inv
    by blast
qed

lemma find_None_iff_not_ex: "find P xs = None \<longleftrightarrow> \<not> list_ex P xs"
  by (induction xs) auto

lemma is_ride_passenger_stranger:
  assumes "references_resolve d r" "\<not> bound_passenger d u r"
  shows "is_ride_passenger d u r = Inr False"
proof (cases "passenger_profile d u")
  case None
  then show ?thesis by (simp add: is_ride_passenger_def)
next
  case (Some own)
  from assms(1) obtain p where
    p: "find (\<lambda>p. passenger_id p = passenger r) (passengers d) = Some p"
    by (cases "find (\<lambda>p. passenger_id p = passenger r) (passengers d)")
       (auto simp add: references_resolve_def find_None_iff_not_ex)
  from find_Some_props [OF p] assms(2) have "p_user p \<noteq> user_id u"
    by (auto simp add: bound_passenger_def list_ex_iff)
  then show ?thesis
    by (simp add: is_ride_passenger_def Some ride_passenger_def p)
qed

lemma is_ride_driver_stranger:
  assumes "references_resolve d r" "\<not> bound_driver d u r"
  shows "is_ride_driver d u r = Inr False"
proof (cases "driver_profile d u")
  case None
  then show ?thesis by (simp add: is_ride_driver_def)
next
  case own: (Some own)
  show ?thesis
  proof (cases "driver r")
    case None
    then show ?thesis by (simp add: is_ride_driver_def own ride_driver_def)
  next
    case (Some k)
    from assms(1) Some obtain x where
      x: "find (\<lambda>x. driver_id x = k) (drivers d) = Some x"
      by (cases "find (\<lambda>x. driver_id x = k) (drivers d)")
         (auto simp add: references_resolve_def find_None_iff_not_ex)
    from find_Some_props [OF x] assms(2) Some have "d_user x \<noteq> user_id u"
      by (auto simp add: bound_driver_def list_ex_iff)
    then show ?thesis
      by (simp add: is_ride_driver_def own ride_driver_def Some x)
  qed
qed

lemma update_ride_status_stranger:
  assumes "find (\<lambda>r. ride_id r = rid) (rides d) = Some ride"
    "get_user d tg = Inr user" "tg \<noteq> []"
    "references_resolve d ride" "\<not> bound_passenger d user ride" "\<not> bound_driver d user ride"
  shows "update_ride_status d rid new_status notes (Some tg) now = (d, Inl PermissionDenied)"
  using assms
  by (simp add: update_ride_status_def get_ride_def check_permission_def
      is_ride_passenger_stranger is_ride_driver_stranger)

lemma cancel_ride_stranger:
  assumes "find (\<lambda>r. ride_id r = rid) (rides d) = Some ride"
    "get_user d tg = Inr user"
    "references_resolve d ride" "\<not> bound_passenger d user ride" "\<not> bound_driver d user ride"
  shows "cancel_ride d rid tg why now = (d, Inl PermissionDenied)"
  using assms
  by (simp add: cancel_ride_def get_ride_def
      is_ride_passenger_stranger is_ride_driver_stranger)

lemma update_ride_status_unregistered:
  assumes "get_user d tg = Inl e" "tg \<noteq> []"
  shows "update_ride_status d rid new_status notes (Some tg) now = (d, Inl NoReason)"
  using assms
  by (simp add: update_ride_status_def check_permission_def split: sum.splits)

lemma cancel_ride_unregistered:
  assumes "get_user d tg = Inl e"
  shows "cancel_ride d rid tg why now = (d, Inl NoReason)"
  using assms by (simp add: cancel_ride_def)

lemma rides_save_driver [simp]: "rides (save_driver d x) = rides d"
  by (simp add: save_driver_def)

lemma rides_save_passenger [simp]: "rides (save_passenger d p) = rides d"
  by (simp add: save_passenger_def)

lemma rides_update_counters [simp]: "rides (fst (update_counters d r)) = rides d"
  by (simp add: update_counters_def Let_def split: sum.splits option.splits)

lemma rides_update_countersD: "update_counters d r = (d', res) \<Longrightarrow> rides d' = rides d"
  using rides_update_counters [of d r] by simp

lemma update_ride_status_permitted:
  assumes found: "find (\<lambda>r. ride_id r = rid) (rides d) = Some ride"
    and perm: "check_permission d ride telegram = Inr True"
  shows "rides (fst (update_ride_status d rid new_status notes telegram now)) =
     map (\<lambda>x. if ride_id x = rid then update_status_fields ride new_status notes now else x)
       (rides d)"
proof -
  have rid: "ride_id ride = rid" and in_d: "ride \<in> set (rides d)"
    using find_Some_props [OF found] by simp_all
  have ex: "list_ex (\<lambda>x. ride_id x = ride_id ride) (rides d)"
    using in_d by (auto simp add: list_ex_iff)
  have r1: "rides (fst (update_status d ride new_status notes now)) =
      map (\<lambda>x. if ride_id x = rid then update_status_fields ride new_status notes now else x)
        (rides d)"
    using rides_after_update_status [OF ex] rid by simp
  obtain d1 ride1 where u: "update_status d ride new_status notes now = (d1, ride1)"
    by (cases "update_status d ride new_status notes now")
  have d1: "rides d1 = map (\<lambda>x. if ride_id x = rid
      then update_status_fields ride new_status notes now else x) (rides d)"
    using r1 u by simp
  show ?thesis
    using d1
    by (auto simp add: update_ride_status_def get_ride_def found perm u
        dest: rides_update_countersD split: prod.splits sum.splits)
qed


lemma check_permission_no_identity:
  "telegram = None \<or> telegram = Some [] \<Longrightarrow> check_permission d ride telegram = Inr True"
  by (auto simp add: check_permission_def)


lemma stamped_entering:
  "s = ''completed'' \<or> sublist ''cancelled'' s \<Longrightarrow> stamped (update_status_fields r s n t)"
  using not_cancelled_literals
  by (auto simp add: stamped_def completed_at_update_status_fields
      cancelled_at_update_status_fields)


lemmas demo_defs' = demo_defs done_db_def ride_done_def

lemmas service_defs =
  update_ride_status_def cancel_ride_def check_permission_def get_user_def get_ride_def
  is_ride_passenger_def is_ride_driver_def passenger_profile_def driver_profile_def
  ride_passenger_def ride_driver_def update_status_def update_status_fields_def save_ride_def
  history_entry_def update_counters_def save_driver_def save_passenger_def Let_def
  sublist_code



text \<open>
  Claim C9, amended. A call with the non-empty identity of a registered user who is
  neither the ride's bound passenger nor its bound driver fails with "Permission denied",
  in \<open>update_ride_status\<close> and in \<open>cancel_ride\<close>, and returns the database as it was
  (the ride's passenger and driver references being rows of their tables). A call with a
  non-empty identity that is not registered fails with the reason \<open>None\<close> and changes
  nothing. A call of \<open>update_ride_status\<close> with no identity (\<open>None\<close> or the empty
  string) is not checked: the transition is performed.
\<close>

theorem transition_by_other_identity:
  "(find (\<lambda>r. ride_id r = rid) (rides d) = Some ride \<and> get_user d tg = Inr user \<and> tg \<noteq> [] \<and>
    references_resolve d ride \<and> \<not> bound_passenger d user ride \<and> \<not> bound_driver d user ride \<longrightarrow>
      update_ride_status d rid new_status why (Some tg) now = (d, Inl PermissionDenied) \<and>
      cancel_ride d rid tg why now = (d, Inl PermissionDenied)) \<and>
   (get_user d tg = Inl e \<and> tg \<noteq> [] \<longrightarrow>
      update_ride_status d rid new_status why (Some tg) now = (d, Inl NoReason) \<and>
      cancel_ride d rid tg why now = (d, Inl NoReason)) \<and>
   (find (\<lambda>r. ride_id r = rid) (rides d) = Some ride \<and> (telegram = None \<or> telegram = Some []) \<longrightarrow>
      rides (fst (update_ride_status d rid new_status why telegram now)) =
        map (\<lambda>x. if ride_id x = rid then update_status_fields ride new_status why now else x)
          (rides d))"
proof (intro conjI impI)
  assume a: "find (\<lambda>r. ride_id r = rid) (rides d) = Some ride \<and> get_user d tg = Inr user \<and>
    tg \<noteq> [] \<and> references_resolve d ride \<and> \<not> bound_passenger d user ride \<and>
    \<not> bound_driver d user ride"
  then have found: "find (\<lambda>r. ride_id r = rid) (rides d) = Some ride"
    and user: "get_user d tg = Inr user" and tg: "tg \<noteq> []"
    and refs: "references_resolve d ride"
    and np: "\<not> bound_passenger d user ride" and nd: "\<not> bound_driver d user ride"
    by simp_all
  show "update_ride_status d rid new_status why (Some tg) now = (d, Inl PermissionDenied)"
    by (rule update_ride_status_stranger [OF found user tg refs np nd])
  show "cancel_ride d rid tg why now = (d, Inl PermissionDenied)"
    by (rule cancel_ride_stranger [OF found user refs np nd])
next
  assume a: "get_user d tg = Inl e \<and> tg \<noteq> []"
  then have nobody: "get_user d tg = Inl e" and tg: "tg \<noteq> []"
    by simp_all
  show "update_ride_status d rid new_status why (Some tg) now = (d, Inl NoReason)"
    by (rule update_ride_status_unregistered [OF nobody tg])
  show "cancel_ride d rid tg why now = (d, Inl NoReason)"
    by (rule cancel_ride_unregistered [OF nobody])
next
  assume a: "find (\<lambda>r. ride_id r = rid) (rides d) = Some ride \<and>
    (telegram = None \<or> telegram = Some [])"
  then have found: "find (\<lambda>r. ride_id r = rid) (rides d) = Some ride"
    and no_id: "telegram = None \<or> telegram = Some []"
    by simp_all
  have perm: "check_permission d ride telegram = Inr True"
    by (rule check_permission_no_identity [OF no_id])
  show "rides (fst (update_ride_status d rid new_status why telegram now)) =
      map (\<lambda>x. if ride_id x = rid then update_status_fields ride new_status why now else x)
        (rides d)"
    by (rule update_ride_status_permitted [OF found perm])
qed

text \<open>
  Claim C9 as stated fails on the code. \<open>update_ride_status\<close> accepts \<open>None\<close> as the
  identity (its default) and then skips the permission check: the call below, from no
  bound party, moves ride 1 from requested to in_progress, sets \<open>started_at\<close> and appends
  a history entry. An identity that is not registered (999) fails, but with the reason
  \<open>None\<close>, not with the permission error.
\<close>

theorem transition_without_identity_counterexample:
  "map status (rides demo_db) = [''requested''] \<and>
   map_sum id status (snd (update_ride_status demo_db 1 ''in_progress'' [] None 30)) =
     Inr ''in_progress'' \<and>
   map status (rides (fst (update_ride_status demo_db 1 ''in_progress'' [] None 30))) =
     [''in_progress''] \<and>
   map started_at (rides (fst (update_ride_status demo_db 1 ''in_progress'' [] None 30))) =
     [Some 30] \<and>
   map h_status (status_history (fst (update_ride_status demo_db 1 ''in_progress'' [] None 30))) =
     [''in_progress''] \<and>
   update_ride_status demo_db 1 ''in_progress'' [] (Some ''999'') 30 = (demo_db, Inl NoReason)"
  by (simp add: service_defs demo_defs)

theorem transition_by_other_identity_witness:
  "update_ride_status demo_db 1 ''completed'' [] (Some ''300'') 30 = (demo_db, Inl PermissionDenied) \<and>
   cancel_ride demo_db 1 ''300'' [] 30 = (demo_db, Inl PermissionDenied) \<and>
   update_ride_status demo_db 1 ''completed'' [] (Some ''999'') 30 = (demo_db, Inl NoReason) \<and>
   cancel_ride demo_db 1 ''999'' [] 30 = (demo_db, Inl NoReason) \<and>
   rides (fst (update_ride_status demo_db 1 ''driver_arrived'' [] None 30)) =
     [ride_1\<lparr>status := ''driver_arrived''\<rparr>]"
proof -
  have found: "find (\<lambda>r. ride_id r = 1) (rides demo_db) = Some ride_1"
    by (simp add: demo_defs)
  have user: "get_user demo_db ''300'' = Inr \<lparr>user_id = 4, telegram_id = ''300''\<rparr>"
    by (simp add: get_user_def demo_defs)
  have nobody: "get_user demo_db ''999'' = Inl User_DoesNotExist"
    by (simp add: get_user_def demo_defs)
  have refs: "references_resolve demo_db ride_1"
    by (simp add: references_resolve_def demo_defs)
  have np: "\<not> bound_passenger demo_db \<lparr>user_id = 4, telegram_id = ''300''\<rparr> ride_1"
    by (simp add: bound_passenger_def demo_defs)
  have nd: "\<not> bound_driver demo_db \<lparr>user_id = 4, telegram_id = ''300''\<rparr> ride_1"
    by (simp add: bound_driver_def demo_defs)
  have new: "update_status_fields ride_1 ''driver_arrived'' [] 30 =
      ride_1\<lparr>status := ''driver_arrived''\<rparr>"
    by (simp add: update_status_fields_def Let_def ride_1_def sublist_code)
  have id1: "ride_id ride_1 = 1" by (simp add: ride_1_def)
  have rs: "rides demo_db = [ride_1]" by (simp add: demo_db_def)
  show ?thesis
    using transition_by_other_identity [where rid = 1 and d = demo_db and ride = ride_1
        and tg = "''300''" and user = "\<lparr>user_id = 4, telegram_id = ''300''\<rparr>"
        and new_status = "''completed''" and why = "[]" and now = 30
        and e = User_DoesNotExist and telegram = None]
      transition_by_other_identity [where rid = 1 and d = demo_db and ride = ride_1
        and tg = "''999''" and user = "\<lparr>user_id = 4, telegram_id = ''300''\<rparr>"
        and new_status = "''completed''" and why = "[]" and now = 30
        and e = User_DoesNotExist and telegram = None]
      transition_by_other_identity [where rid = 1 and d = demo_db and ride = ride_1
        and tg = "''300''" and user = "\<lparr>user_id = 4, telegram_id = ''300''\<rparr>"
        and new_status = "''driver_arrived''" and why = "[]" and now = 30
        and e = User_DoesNotExist and telegram = None]
      found user nobody refs np nd
    unfolding new by (simp add: id1 rs)
qed



lemma candidates_complete:
  assumes "x \<in> set (drivers d)" "is_online x" "is_verified x"
  shows "x \<in> fst ` set (get_nearby_rides_for_new_ride d geo ride)"
  using assms by (auto simp add: get_nearby_rides_for_new_ride_def image_iff)













lemma rides_get_max [simp]: "rides (fst (get_max_fare_boosts d)) = rides d"
  by (simp add: get_max_fare_boosts_def split: option.splits)

lemma rides_get_amount [simp]: "rides (fst (get_fare_boost_amount d)) = rides d"
  by (simp add: get_fare_boost_amount_def split: option.splits)

lemma amount_key_after_get_max [simp]:
  "map_of (app_settings (fst (get_max_fare_boosts d))) ''fare_boost_amount'' =
     map_of (app_settings d) ''fare_boost_amount''"
  by (simp add: get_max_fare_boosts_def map_add_def split: option.splits)


lemma boost_fare_unfold:
  "boost_fare d self =
     (if int (fare_boosts self) \<ge> snd (get_max_fare_boosts d)
      then (fst (get_fare_boost_amount (fst (get_max_fare_boosts d))), self,
            Inr (Inl (MaximumBoosts (snd (get_max_fare_boosts d)))))
      else if status self \<noteq> ''requested''
      then (fst (get_fare_boost_amount (fst (get_max_fare_boosts d))), self, Inr (Inl PendingOnly))
      else (case snd (get_fare_boost_amount (fst (get_max_fare_boosts d))) of
              PyFloat _ \<Rightarrow>
                (fst (get_fare_boost_amount (fst (get_max_fare_boosts d))), self, Inl TypeError)
            | PyDecimal amount \<Rightarrow>
                (case format_number (display_cost self + amount) 8 2 of
                   None \<Rightarrow>
                     (fst (get_fare_boost_amount (fst (get_max_fare_boosts d))),
                      self\<lparr>fare_boosts := fare_boosts self + 1,
                            current_cost := Some (display_cost self + amount)\<rparr>,
                      Inl InvalidOperation)
                 | Some stored \<Rightarrow>
                     (save_ride (fst (get_fare_boost_amount (fst (get_max_fare_boosts d))))
                        (self\<lparr>fare_boosts := fare_boosts self + 1,
                              current_cost := Some stored\<rparr>),
                      self\<lparr>fare_boosts := fare_boosts self + 1,
                            current_cost := Some (display_cost self + amount)\<rparr>,
                      Inr (Inr (amount, display_cost self + amount))))))"
  by (simp add: boost_fare_def display_cost_def Let_def
      split: prod.splits number.splits option.splits)




lemma estimated_cost_boost_fare [simp]:
  "estimated_cost (fst (snd (boost_fare d self))) = estimated_cost self"
  by (simp add: boost_fare_unfold split: number.splits option.splits)


lemma app_settings_save_ride [simp]: "app_settings (save_ride d r) = app_settings d"
  by (simp add: save_ride_def)










lemmas boost_defs =
  boost_fare_def get_max_fare_boosts_def get_fare_boost_amount_def py_int_def decimal_or_def
  display_cost_def save_ride_def boost_ride_fare_def increase_ride_cost_def get_user_def
  get_ride_def passenger_profile_def is_ride_passenger_def ride_passenger_def Let_def
  format_number_def quantize_def round_half_even_def delay_def

lemmas demo_defs2 = demo_defs cheap_db_def assigned_db_def



text \<open>
  Claim C6 fails on \<open>PassengerService.boost_ride_fare\<close>. A registered passenger who does
  not own the requested ride 1 (Telegram id 300) and the owner of ride 1 once it is
  assigned get the same reason, "Ride not found or cannot be boosted"; a caller without
  a passenger profile (201) gets the catch-all "Error boosting fare". The sibling
  \<open>RideService.increase_ride_cost\<close> tells the two cases apart: "Permission denied" and
  "Ride already assigned or in progress".
\<close>

theorem boost_ride_fare_reasons:
  "boost_ride_fare demo_db workers ''300'' 1 =
     (demo_db, workers, Inl RideNotFoundOrCannotBeBoosted) \<and>
   boost_ride_fare assigned_db workers ''100'' 1 =
     (assigned_db, workers, Inl RideNotFoundOrCannotBeBoosted) \<and>
   boost_ride_fare demo_db workers ''201'' 1 = (demo_db, workers, Inl ErrorBoostingFare) \<and>
   snd (snd (increase_ride_cost demo_db workers 1 ''300'')) = Inl PermissionDenied \<and>
   snd (snd (increase_ride_cost assigned_db workers 1 ''100'')) = Inl RideAlreadyAssigned"
  by (simp add: boost_defs demo_defs2)

text \<open>
  Beside the claims: on a database whose settings table is still empty, the first boost of
  a requested ride creates the two rows and then raises \<open>TypeError\<close>, since the amount
  it adds is the \<open>float\<close> literal of the row just created.
\<close>

lemma boost_fare_first_use:
  "app_settings d = [] \<Longrightarrow> status self = ''requested'' \<Longrightarrow> fare_boosts self < 3 \<Longrightarrow>
     snd (boost_fare d self) = (self, Inl TypeError)"
  by (simp add: boost_fare_def get_max_fare_boosts_def get_fare_boost_amount_def)

lemma users_save_driver [simp]: "users (save_driver d x) = users d"
  by (simp add: save_driver_def)

lemma ratings_save_driver [simp]: "ratings (save_driver d x) = ratings d"
  by (simp add: save_driver_def)

lemma passengers_save_driver [simp]: "passengers (save_driver d x) = passengers d"
  by (simp add: save_driver_def)




















lemma quantize_zero [simp]: "quantize p 0 = 0"
  by (simp add: quantize_def round_half_even_def)







text \<open>
  Claim C2 as stated fails on the code: the refusal of \<open>accept_ride\<close> does not keep a
  driver from holding two active rides. The first driver (201), whose ride 1 is
  completed, accepts ride 3 and then sets ride 1 to in_progress, which
  \<open>update_ride_status\<close> grants to the driver of the ride whatever its status; the driver
  then holds rides 1 and 3 in active statuses. And when the driver's two accept attempts
  for rides 1 and 3 overlap, both having done their reads before either writes, both
  succeed, the second one writing while the driver already holds ride 1 as assigned.
\<close>

theorem accept_ride_two_active_rides_counterexample:
  "active_rides_of reopen_db 1 = [] \<and>
   map_sum id (\<lambda>r. (ride_id r, driver r, status r)) (snd (accept_ride reopen_db ''201'' 3 20)) =
     Inr (3, Some 1, ''assigned'') \<and>
   map_sum id (\<lambda>r. (ride_id r, driver r, status r))
     (snd (update_ride_status (fst (accept_ride reopen_db ''201'' 3 20)) 1 ''in_progress'' []
             (Some ''201'') 30)) =
     Inr (1, Some 1, ''in_progress'') \<and>
   map (\<lambda>r. (ride_id r, status r))
     (active_rides_of
        (fst (update_ride_status (fst (accept_ride reopen_db ''201'' 3 20)) 1 ''in_progress'' []
                (Some ''201'') 30)) 1) =
     [(1, ''in_progress''), (3, ''assigned'')] \<and>
   map_sum id (\<lambda>r. (ride_id r, driver r, status r))
     (snd (accept_ride_finish open_db (accept_ride_read open_db ''201'' 1) 10)) =
     Inr (1, Some 1, ''assigned'') \<and>
   has_active_ride (fst (accept_ride_finish open_db (accept_ride_read open_db ''201'' 1) 10)) 1 \<and>
   map_sum id (\<lambda>r. (ride_id r, driver r, status r))
     (snd (accept_ride_finish
             (fst (accept_ride_finish open_db (accept_ride_read open_db ''201'' 1) 10))
             (accept_ride_read open_db ''201'' 3) 11)) =
     Inr (3, Some 1, ''assigned'') \<and>
   map (\<lambda>r. (ride_id r, status r))
     (active_rides_of
        (fst (accept_ride_finish
                (fst (accept_ride_finish open_db (accept_ride_read open_db ''201'' 1) 10))
                (accept_ride_read open_db ''201'' 3) 11)) 1) =
     [(1, ''assigned''), (3, ''assigned'')]"
  by (simp add: accept_ride_def accept_defs service_defs demo_defs' active_rides_of_def
      has_active_ride_def reopen_db_def open_db_def ride_3_def)

end
